theory Spec2Isabelle
  imports Main
begin

section \<open>The restore and snapshots commands of litestream\<close>

text \<open>
  A shallow embedding of \<^verbatim>\<open>cmd/litestream/restore.go\<close> and
  \<^verbatim>\<open>cmd/litestream/snapshots.go\<close>. Both \<^verbatim>\<open>Run\<close> methods are straight-line
  code with early returns around calls into functions that live elsewhere (the flag
  package, the configuration reader, the replication engine). Those functions are the
  fields of an environment record, so every theorem holds for whatever they return. A run
  is modelled by what it returns, the calls it makes (in order, with their arguments) and
  what it writes to standard output. The two \<^verbatim>\<open>Usage\<close> methods are called by the flag
  package alone, through \<^verbatim>\<open>fs.Usage\<close>, when it rejects a command line or is asked for
  help; a failed \<^verbatim>\<open>fs.Parse\<close> hands back, with its error, what has been printed to
  standard output on the way.
\<close>

subsection \<open>Data\<close>

text \<open>A Go \<^verbatim>\<open>error\<close> is modelled by its message; a run-time panic is kept apart.\<close>

datatype error = Error string | Panic string

text \<open>A \<^verbatim>\<open>time.Time\<close>: nanoseconds since the Unix epoch and the zone offset in
  seconds. The commands only pass such values between \<^verbatim>\<open>time.Parse\<close>, the engine and
  \<^verbatim>\<open>Time.Format\<close>.\<close>

datatype time = Time int int

datatype writer = Stdout | Stderr

text \<open>A \<^verbatim>\<open>*log.Logger\<close> as \<^verbatim>\<open>log.New(out, prefix, flag)\<close> builds it.\<close>

record logger =
  out :: writer
  prefix :: string
  flag :: nat

definition LstdFlags :: nat where
  \<comment> \<open>\<^verbatim>\<open>log.LstdFlags = Ldate | Ltime\<close>\<close>
  "LstdFlags = 3"

definition log_New :: "writer \<Rightarrow> string \<Rightarrow> nat \<Rightarrow> logger" where
  "log_New w p f = \<lparr>out = w, prefix = p, flag = f\<rparr>"

text \<open>\<^verbatim>\<open>litestream.SnapshotInfo\<close>, as far as \<^verbatim>\<open>snapshots.go\<close> reads it.\<close>

record SnapshotInfo =
  Replica :: string
  Generation :: string
  Index :: int
  Size :: int
  CreatedAt :: time

text \<open>\<^verbatim>\<open>litestream.RestoreOptions\<close>; a nil \<^verbatim>\<open>Logger\<close> is \<open>None\<close>.\<close>

record RestoreOptions =
  OutputPath :: string
  ReplicaName :: string
  Generation :: string
  Index :: int
  Timestamp :: time
  DryRun :: bool
  Logger :: "logger option"

text \<open>
  The variables a \<^verbatim>\<open>flag.FlagSet\<close> has filled in once \<^verbatim>\<open>fs.Parse\<close> has returned
  nil: \<open>configPath\<close> is the variable \<^verbatim>\<open>registerConfigFlag\<close> binds to \<^verbatim>\<open>-config\<close>,
  \<open>posargs\<close> is \<^verbatim>\<open>fs.Args()\<close>. For the restore command \<open>opt\<close> is the value of
  \<^verbatim>\<open>litestream.NewRestoreOptions()\<close> with the fields bound to \<^verbatim>\<open>-o\<close>,
  \<^verbatim>\<open>-replica\<close>, \<^verbatim>\<open>-generation\<close>, \<^verbatim>\<open>-index\<close> and \<^verbatim>\<open>-dry-run\<close> written
  by the parser.
\<close>

record flagset =
  configPath :: string
  posargs :: "string list"

record restore_flags = flagset +
  opt :: RestoreOptions
  timestampStr :: string
  verbose :: bool

record snapshots_flags = flagset +
  replicaName :: string

definition NArg :: "'a flagset_scheme \<Rightarrow> nat" where
  "NArg fs = length (posargs fs)"

definition Arg :: "'a flagset_scheme \<Rightarrow> nat \<Rightarrow> string" where
  \<comment> \<open>\<^verbatim>\<open>fs.Arg(i)\<close> is the empty string when there is no such argument\<close>
  "Arg fs i = (if i < length (posargs fs) then posargs fs ! i else [])"

subsection \<open>The functions the commands call\<close>

text \<open>
  A function returning \<^verbatim>\<open>(T, error)\<close> is a function into \<open>error + T\<close>, a function
  returning a pointer that may be nil one into an option. The two flag parsers return the
  variables they have filled in, or the error together with the text that the call of
  \<^verbatim>\<open>fs.Usage\<close> has printed to standard output. \<open>'cfg\<close>, \<open>'dbc\<close>, \<open>'db\<close> and
  \<open>'r\<close> stand for \<^verbatim>\<open>Config\<close>, \<^verbatim>\<open>*DBConfig\<close>, \<^verbatim>\<open>*litestream.DB\<close> and
  \<^verbatim>\<open>litestream.Replica\<close>; a constructor that returns a nil error returns a handle.
  \<open>quote\<close> is the verb \<^verbatim>\<open>%q\<close> of \<^verbatim>\<open>fmt\<close>, \<open>tabwriter\<close> maps the text written
  to a \<^verbatim>\<open>tabwriter.NewWriter(os.Stdout, 0, 8, 1, '\t', 0)\<close> to the bytes it has sent to
  standard output after \<^verbatim>\<open>Flush\<close>.
\<close>

record ('cfg, 'dbc, 'db, 'r) env =
  ParseRestore :: "string list \<Rightarrow> (error \<times> string) + restore_flags"
  ParseSnapshots :: "string list \<Rightarrow> (error \<times> string) + snapshots_flags"
  ReadConfigFile :: "string \<Rightarrow> error + 'cfg"
  DBConfig :: "'cfg \<Rightarrow> string \<Rightarrow> 'dbc option"
  newDBFromConfig :: "'cfg \<Rightarrow> 'dbc \<Rightarrow> error + 'db"
  time_Parse_RFC3339 :: "string \<Rightarrow> error + time"
  time_Format_RFC3339 :: "time \<Rightarrow> string"
  filepath_Abs :: "string \<Rightarrow> error + string"
  isURL :: "string \<Rightarrow> bool"
  NewReplicaFromURL :: "string \<Rightarrow> error + 'r"
  expand :: "string \<Rightarrow> error + string"
  DB_Path :: "'db \<Rightarrow> string"
  DB_Replica :: "'db \<Rightarrow> string \<Rightarrow> 'r option"
  DB_Snapshots :: "'db \<Rightarrow> error + SnapshotInfo list"
  DB_Restore :: "'db \<Rightarrow> RestoreOptions \<Rightarrow> error option"
  Replica_Snapshots :: "'r \<Rightarrow> error + SnapshotInfo list"
  quote :: "string \<Rightarrow> string"
  tabwriter :: "string \<Rightarrow> string"

text \<open>One constructor for each call a command makes after \<^verbatim>\<open>fs.Parse\<close>.\<close>

datatype ('dbc, 'db, 'r) call =
    Call_ReadConfigFile string
  | Call_time_Parse string
  | Call_filepath_Abs string
  | Call_DBConfig string
  | Call_newDBFromConfig 'dbc
  | Call_DB_Restore 'db RestoreOptions
  | Call_isURL string
  | Call_NewReplicaFromURL string
  | Call_expand string
  | Call_DB_Replica 'db string
  | Call_DB_Path 'db
  | Call_DB_Snapshots 'db
  | Call_Replica_Snapshots 'r

text \<open>What a run of a command leaves behind.\<close>

record ('dbc, 'db, 'r) outcome =
  err :: "error option"
  calls :: "('dbc, 'db, 'r) call list"
  stdout :: string

definition return :: "error option \<Rightarrow> ('dbc, 'db, 'r) outcome" where
  "return e = \<lparr>err = e, calls = [], stdout = []\<rparr>"

definition after :: "('dbc, 'db, 'r) call \<Rightarrow> ('dbc, 'db, 'r) outcome \<Rightarrow> ('dbc, 'db, 'r) outcome" where
  \<comment> \<open>the call \<open>c\<close> is made, then the run goes on as \<open>r\<close>\<close>
  "after c r = r\<lparr>calls := c # calls r\<rparr>"

subsection \<open>\<^verbatim>\<open>RestoreCommand.Run\<close>\<close>

definition enable_logger :: "bool \<Rightarrow> RestoreOptions \<Rightarrow> RestoreOptions" where
  \<comment> \<open>restore.go, lines 57 to 65\<close>
  "enable_logger vb ropt =
     (let vb = (if DryRun ropt then True else vb)
      in if vb then ropt\<lparr>Logger := Some (log_New Stderr [] LstdFlags)\<rparr> else ropt)"

definition restore_db ::
  "('cfg, 'dbc, 'db, 'r) env \<Rightarrow> restore_flags \<Rightarrow> 'cfg \<Rightarrow> RestoreOptions \<Rightarrow> ('dbc, 'db, 'r) outcome" where
  \<comment> \<open>restore.go, lines 67 to 83\<close>
  "restore_db env fs config ropt =
     after (Call_filepath_Abs (Arg fs 0))
      (case filepath_Abs env (Arg fs 0) of
         Inl e \<Rightarrow> return (Some e)
       | Inr dbPath \<Rightarrow>
           after (Call_DBConfig dbPath)
            (case DBConfig env config dbPath of
               None \<Rightarrow> return (Some (Error (''database not found in config: '' @ dbPath)))
             | Some dbConfig \<Rightarrow>
                 after (Call_newDBFromConfig dbConfig)
                  (case newDBFromConfig env config dbConfig of
                     Inl e \<Rightarrow> return (Some e)
                   | Inr db \<Rightarrow>
                       after (Call_DB_Restore db ropt) (return (DB_Restore env db ropt)))))"

definition RestoreCommand_Run ::
  "('cfg, 'dbc, 'db, 'r) env \<Rightarrow> string list \<Rightarrow> ('dbc, 'db, 'r) outcome" where
  \<comment> \<open>restore.go, lines 33 to 55, then the two blocks above; in the message of line 53 the
     source has a no-break space, the bytes C2 A0, between \<^verbatim>\<open>8601\<close> and \<^verbatim>\<open>format\<close>\<close>
  "RestoreCommand_Run env args =
     (case ParseRestore env args of
        Inl (e, usage) \<Rightarrow> \<lparr>err = Some e, calls = [], stdout = usage\<rparr>
      | Inr fs \<Rightarrow>
          if NArg fs = 0 \<or> Arg fs 0 = [] then
            return (Some (Error ''database path or replica URL required''))
          else if NArg fs > 1 then
            return (Some (Error ''too many arguments''))
          else if configPath fs = [] then
            return (Some (Error ''-config required''))
          else
            after (Call_ReadConfigFile (configPath fs))
             (case ReadConfigFile env (configPath fs) of
                Inl e \<Rightarrow> return (Some e)
              | Inr config \<Rightarrow>
                  if timestampStr fs \<noteq> [] then
                    after (Call_time_Parse (timestampStr fs))
                     (case time_Parse_RFC3339 env (timestampStr fs) of
                        Inl e \<Rightarrow>
                          return (Some (Error
                            (''invalid -timestamp, must specify in ISO 8601'' @ [CHR 0xC2, CHR 0xA0]
                             @ ''format (e.g. 2000-01-01T00:00:00Z)'')))
                      | Inr t \<Rightarrow>
                          restore_db env fs config
                            (enable_logger (verbose fs) ((opt fs)\<lparr>Timestamp := t\<rparr>)))
                  else
                    restore_db env fs config (enable_logger (verbose fs) (opt fs))))"

subsection \<open>\<^verbatim>\<open>SnapshotsCommand.Run\<close>\<close>

fun digits :: "nat \<Rightarrow> string" where
  "digits n = (if n < 10 then [char_of (48 + n)] else digits (n div 10) @ [char_of (48 + n mod 10)])"

definition itoa :: "int \<Rightarrow> string" where
  \<comment> \<open>the verb \<^verbatim>\<open>%d\<close>\<close>
  "itoa i = (if i < 0 then CHR ''-'' # digits (nat (- i)) else digits (nat i))"

definition tab :: string where
  "tab = [CHR 0x09]"

definition newline :: string where
  "newline = [CHR 0x0A]"

definition header :: string where
  \<comment> \<open>snapshots.go, line 79\<close>
  "header = ''replica'' @ tab @ ''generation'' @ tab @ ''index'' @ tab @ ''size'' @ tab @ ''created''
     @ newline"

definition row :: "('cfg, 'dbc, 'db, 'r) env \<Rightarrow> SnapshotInfo \<Rightarrow> string" where
  \<comment> \<open>snapshots.go, lines 81 to 87\<close>
  "row env info =
     Replica info @ tab @ SnapshotInfo.Generation info @ tab @ itoa (SnapshotInfo.Index info) @ tab
     @ itoa (Size info) @ tab @ time_Format_RFC3339 env (CreatedAt info) @ newline"

definition list_snapshots ::
  "('cfg, 'dbc, 'db, 'r) env \<Rightarrow> SnapshotInfo list \<Rightarrow> ('dbc, 'db, 'r) outcome" where
  \<comment> \<open>snapshots.go, lines 77 to 91\<close>
  "list_snapshots env infos =
     \<lparr>err = None, calls = [], stdout = tabwriter env (header @ concat (map (row env) infos))\<rparr>"

definition find_snapshots ::
  "('cfg, 'dbc, 'db, 'r) env \<Rightarrow> 'db option \<Rightarrow> 'r option \<Rightarrow> ('dbc, 'db, 'r) outcome" where
  \<comment> \<open>snapshots.go, lines 65 to 75, then the table; \<open>db\<close> and \<open>r\<close> are the variables of
     lines 33 and 34, \<open>None\<close> when nil\<close>
  "find_snapshots env db r =
     (case r of
        Some r' \<Rightarrow>
          after (Call_Replica_Snapshots r')
           (case Replica_Snapshots env r' of
              Inl e \<Rightarrow> return (Some e)
            | Inr infos \<Rightarrow> list_snapshots env infos)
      | None \<Rightarrow>
          (case db of
             None \<Rightarrow> return (Some (Panic ''nil pointer dereference''))
           | Some db' \<Rightarrow>
               after (Call_DB_Snapshots db')
                (case DB_Snapshots env db' of
                   Inl e \<Rightarrow> return (Some e)
                 | Inr infos \<Rightarrow> list_snapshots env infos)))"

definition SnapshotsCommand_Run ::
  "('cfg, 'dbc, 'db, 'r) env \<Rightarrow> string list \<Rightarrow> ('dbc, 'db, 'r) outcome" where
  "SnapshotsCommand_Run env args =
     (case ParseSnapshots env args of
        Inl (e, usage) \<Rightarrow> \<lparr>err = Some e, calls = [], stdout = usage\<rparr>
      | Inr fs \<Rightarrow>
          if NArg fs = 0 \<or> Arg fs 0 = [] then
            return (Some (Error ''database path required''))
          else if NArg fs > 1 then
            return (Some (Error ''too many arguments''))
          else
            after (Call_isURL (Arg fs 0))
             (if isURL env (Arg fs 0) then
                after (Call_NewReplicaFromURL (Arg fs 0))
                 (case NewReplicaFromURL env (Arg fs 0) of
                    Inl e \<Rightarrow> return (Some e)
                  | Inr r \<Rightarrow> find_snapshots env None (Some r))
              else if configPath fs \<noteq> [] then
                after (Call_ReadConfigFile (configPath fs))
                 (case ReadConfigFile env (configPath fs) of
                    Inl e \<Rightarrow> return (Some e)
                  | Inr config \<Rightarrow>
                      after (Call_expand (Arg fs 0))
                       (case expand env (Arg fs 0) of
                          Inl e \<Rightarrow> return (Some e)
                        | Inr path \<Rightarrow>
                            after (Call_DBConfig path)
                             (case DBConfig env config path of
                                None \<Rightarrow>
                                  return (Some (Error (''database not found in config: '' @ path)))
                              | Some dbc \<Rightarrow>
                                  after (Call_newDBFromConfig dbc)
                                   (case newDBFromConfig env config dbc of
                                      Inl e \<Rightarrow> return (Some e)
                                    | Inr db \<Rightarrow>
                                        if replicaName fs \<noteq> [] then
                                          after (Call_DB_Replica db (replicaName fs))
                                           (case DB_Replica env db (replicaName fs) of
                                              None \<Rightarrow>
                                                after (Call_DB_Path db)
                                                 (return (Some (Error
                                                    (''replica '' @ quote env (replicaName fs)
                                                     @ '' not found for database ''
                                                     @ quote env (DB_Path env db)))))
                                            | Some r \<Rightarrow> find_snapshots env (Some db) (Some r))
                                        else find_snapshots env (Some db) None))))
              else return (Some (Error ''config path or replica URL required''))))"

subsection \<open>The claims' own notions\<close>

definition IsAbs :: "string \<Rightarrow> bool" where
  \<comment> \<open>an absolute path of a Unix file system, as \<^verbatim>\<open>filepath.IsAbs\<close> decides it\<close>
  "IsAbs p = (case p of [] \<Rightarrow> False | c # _ \<Rightarrow> c = CHR ''/'')"

subsection \<open>A concrete environment\<close>

text \<open>
  One configuration file, \<^verbatim>\<open>/etc/litestream.yml\<close>, with two databases:
  \<^verbatim>\<open>/var/lib/app.db\<close>, that has one replica, \<^verbatim>\<open>s3\<close>, and
  \<^verbatim>\<open>/var/lib/old.db\<close>, that has none and whose inventory cannot be read. A
  configuration is the list of its databases, a database its path and the names of its
  replicas, a replica its name or URL. The store behind \<^verbatim>\<open>s3://down/app.db\<close> cannot
  be reached; every other replica holds no snapshot. \<^verbatim>\<open>DefaultConfigPath()\<close> is
  \<^verbatim>\<open>/etc/litestream.yml\<close>; the help text of both commands gives it as the default of
  \<^verbatim>\<open>-config\<close> (restore.go, lines 99 to 101 and 149), so this is what the variable holds
  when the flag is left out. The two flag parsers are tables: each command line used below
  with the variables Go's flag package leaves for it; for any other command line they
  fail, with the first line of the help text standing for the whole.
\<close>

type_synonym demo_db = "string \<times> string list"

definition demo_options :: RestoreOptions where
  \<comment> \<open>the options when no option flag is given; the index is this environment's default,
     the timestamp is Go's zero \<^verbatim>\<open>time.Time\<close>, 0001-01-01T00:00:00Z\<close>
  "demo_options = \<lparr>OutputPath = [], ReplicaName = [], Generation = [], Index = 9223372036854775807,
     Timestamp = Time (- 62135596800000000000) 0, DryRun = False, Logger = None\<rparr>"

definition demo_DefaultConfigPath :: string where
  "demo_DefaultConfigPath = ''/etc/litestream.yml''"

definition demo_restore_flags :: restore_flags where
  \<comment> \<open>\<^verbatim>\<open>-config /etc/litestream.yml /var/lib/app.db\<close>\<close>
  "demo_restore_flags = \<lparr>configPath = ''/etc/litestream.yml'', posargs = [''/var/lib/app.db''],
     opt = demo_options, timestampStr = [], verbose = False\<rparr>"

definition demo_ParseRestore :: "string list \<Rightarrow> (error \<times> string) + restore_flags" where
  "demo_ParseRestore args =
     (if args = [''-config'', ''/etc/litestream.yml'', ''/var/lib/app.db''] then
        Inr demo_restore_flags
      else if args = [''/var/lib/app.db''] then
        Inr (demo_restore_flags\<lparr>configPath := demo_DefaultConfigPath\<rparr>)
      else if args = [''-config'', ''/etc/litestream.yml'', ''-timestamp'', ''yesterday'', ''/var/lib/app.db''] then
        Inr (demo_restore_flags\<lparr>timestampStr := ''yesterday''\<rparr>)
      else if args = [''-config'', ''/etc/litestream.yml'', ''-o'', ''out.db'', ''/var/lib/app.db''] then
        Inr (demo_restore_flags\<lparr>opt := demo_options\<lparr>OutputPath := ''out.db''\<rparr>\<rparr>)
      else if args = [''-config'', ''/etc/litestream.yml'', ''-dry-run'', ''-v=false'', ''/var/lib/app.db''] then
        Inr (demo_restore_flags\<lparr>opt := demo_options\<lparr>DryRun := True\<rparr>\<rparr>)
      else if args = [''-config'', [], ''/var/lib/app.db''] then
        Inr (demo_restore_flags\<lparr>configPath := []\<rparr>)
      else if args = [''-config'', ''/etc/litestream.yml''] then
        Inr (demo_restore_flags\<lparr>posargs := []\<rparr>)
      else if args = [''-config'', ''/etc/litestream.yml'', ''a.db'', ''b.db''] then
        Inr (demo_restore_flags\<lparr>posargs := [''a.db'', ''b.db'']\<rparr>)
      else Inl (Error ''flag provided but not defined'',
                ''The restore command recovers a database from a previous snapshot and WAL.''))"

definition demo_snapshots_flags :: snapshots_flags where
  \<comment> \<open>\<^verbatim>\<open>-config /etc/litestream.yml /var/lib/app.db\<close>\<close>
  "demo_snapshots_flags = \<lparr>configPath = ''/etc/litestream.yml'', posargs = [''/var/lib/app.db''],
     replicaName = []\<rparr>"

definition demo_ParseSnapshots :: "string list \<Rightarrow> (error \<times> string) + snapshots_flags" where
  "demo_ParseSnapshots args =
     (if args = [''-config'', ''/etc/litestream.yml'', ''/var/lib/app.db''] then
        Inr demo_snapshots_flags
      else if args = [''-config'', ''/etc/litestream.yml'', ''-replica'', ''gcs'', ''/var/lib/app.db''] then
        Inr (demo_snapshots_flags\<lparr>replicaName := ''gcs''\<rparr>)
      else if args = [''-config'', ''/etc/litestream.yml'', ''s3://bkt/app.db''] then
        Inr (demo_snapshots_flags\<lparr>posargs := [''s3://bkt/app.db'']\<rparr>)
      else if args = [''-config'', ''/etc/litestream.yml'', ''-replica'', ''gcs'', ''s3://bkt/app.db''] then
        Inr (demo_snapshots_flags\<lparr>posargs := [''s3://bkt/app.db''], replicaName := ''gcs''\<rparr>)
      else if args = [''-config'', ''/etc/litestream.yml'', ''s3://down/app.db''] then
        Inr (demo_snapshots_flags\<lparr>posargs := [''s3://down/app.db'']\<rparr>)
      else if args = [''-config'', ''/etc/litestream.yml'', ''/var/lib/old.db''] then
        Inr (demo_snapshots_flags\<lparr>posargs := [''/var/lib/old.db'']\<rparr>)
      else if args = [''-config'', ''/etc/litestream.yml''] then
        Inr (demo_snapshots_flags\<lparr>posargs := []\<rparr>)
      else if args = [''-config'', ''/etc/litestream.yml'', ''a.db'', ''b.db''] then
        Inr (demo_snapshots_flags\<lparr>posargs := [''a.db'', ''b.db'']\<rparr>)
      else Inl (Error ''flag provided but not defined'',
                ''The snapshots command lists all snapshots available for a database or replica.''))"

definition demo_config :: "demo_db list" where
  "demo_config = [(''/var/lib/app.db'', [''s3'']), (''/var/lib/old.db'', [])]"

definition demo_env :: "(demo_db list, demo_db, demo_db, string) env" where
  "demo_env =
     \<lparr>ParseRestore = demo_ParseRestore,
      ParseSnapshots = demo_ParseSnapshots,
      ReadConfigFile = (\<lambda>p. if p = ''/etc/litestream.yml'' then Inr demo_config
                            else Inl (Error ''no such file or directory'')),
      DBConfig = (\<lambda>config p. find (\<lambda>d. fst d = p) config),
      newDBFromConfig = (\<lambda>config d. Inr d),
      time_Parse_RFC3339 = (\<lambda>s. if s = ''2020-01-01T00:00:00Z'' then Inr (Time 1577836800000000000 0)
                                else Inl (Error ''cannot parse'')),
      time_Format_RFC3339 = (\<lambda>t. ''2020-01-01T00:00:00Z''),
      filepath_Abs = (\<lambda>p. Inr (if IsAbs p then p else ''/var/lib/'' @ p)),
      isURL = (\<lambda>s. take 5 s = ''s3://''),
      NewReplicaFromURL = Inr,
      expand = Inr,
      DB_Path = fst,
      DB_Replica = (\<lambda>db n. if n \<in> set (snd db) then Some n else None),
      DB_Snapshots = (\<lambda>db. if fst db = ''/var/lib/old.db'' then Inl (Error ''permission denied'')
                           else Inr []),
      DB_Restore = (\<lambda>db ropt. None),
      Replica_Snapshots = (\<lambda>r. if r = ''s3://down/app.db'' then Inl (Error ''connection refused'')
                               else Inr []),
      quote = (\<lambda>s. CHR 0x22 # s @ [CHR 0x22]),
      tabwriter = id\<rparr>"

section \<open>Properties\<close>

subsection \<open>Reading an outcome\<close>

lemma return_sel [simp]:
  "err (return e) = e" "calls (return e) = []" "stdout (return e) = []"
  by (simp_all add: return_def)

lemma after_sel [simp]:
  "err (after c r) = err r" "calls (after c r) = c # calls r" "stdout (after c r) = stdout r"
  by (simp_all add: after_def)

lemma list_snapshots_sel [simp]:
  "err (list_snapshots env infos) = None"
  "calls (list_snapshots env infos) = []"
  "stdout (list_snapshots env infos) = tabwriter env (header @ concat (map (row env) infos))"
  by (simp_all add: list_snapshots_def)

subsection \<open>The last block of the restore command\<close>

lemma restore_db_calls:
  assumes "c \<in> set (calls (restore_db env fs config ropt))"
  shows "c = Call_filepath_Abs (Arg fs 0)
    \<or> (\<exists>p. c = Call_DBConfig p \<and> filepath_Abs env (Arg fs 0) = Inr p)
    \<or> (\<exists>d. c = Call_newDBFromConfig d)
    \<or> (\<exists>db. c = Call_DB_Restore db ropt)"
  using assms by (auto simp: restore_db_def split: sum.splits option.splits)

lemma restore_db_options:
  "Call_DB_Restore db ro \<in> set (calls (restore_db env fs config ropt)) \<Longrightarrow> ro = ropt"
  by (drule restore_db_calls) auto

lemma restore_db_lookup:
  "Call_DBConfig p \<in> set (calls (restore_db env fs config ropt)) \<Longrightarrow>
     filepath_Abs env (Arg fs 0) = Inr p"
  by (drule restore_db_calls) auto

lemma enable_logger_keeps [simp]:
  "OutputPath (enable_logger vb ropt) = OutputPath ropt"
  "DryRun (enable_logger vb ropt) = DryRun ropt"
  by (simp_all add: enable_logger_def Let_def)

lemma enable_logger_dry_run:
  "DryRun ropt \<Longrightarrow> Logger (enable_logger vb ropt) = Some (log_New Stderr [] LstdFlags)"
  by (simp add: enable_logger_def)

subsection \<open>Restore: a malformed timestamp\<close>

text \<open>
  Claim C1, as the code has it. A restore whose \<^verbatim>\<open>-timestamp\<close> string is not empty and
  does not parse fails, and it fails before any database lookup: the only calls it can have
  made are the load of the configuration file and the parse of the timestamp, so there is
  no lookup in the configuration, no database handle and no restore. The configuration
  file is read before the timestamp is looked at: when the argument and \<^verbatim>\<open>-config\<close>
  checks pass and the file loads, the run is exactly those two calls and the
  invalid-timestamp error.
\<close>

theorem restore_malformed_timestamp_no_db_lookup:
  assumes "ParseRestore env args = Inr fs"
    and "timestampStr fs \<noteq> []"
    and "time_Parse_RFC3339 env (timestampStr fs) = Inl e"
  shows "err (RestoreCommand_Run env args) \<noteq> None
    \<and> (\<forall>c \<in> set (calls (RestoreCommand_Run env args)).
          c = Call_ReadConfigFile (configPath fs) \<or> c = Call_time_Parse (timestampStr fs))
    \<and> (NArg fs = 1 \<and> Arg fs 0 \<noteq> [] \<and> configPath fs \<noteq> []
        \<and> ReadConfigFile env (configPath fs) = Inr config \<longrightarrow>
          RestoreCommand_Run env args =
            \<lparr>err = Some (Error
               (''invalid -timestamp, must specify in ISO 8601'' @ [CHR 0xC2, CHR 0xA0]
                 @ ''format (e.g. 2000-01-01T00:00:00Z)'')),
             calls = [Call_ReadConfigFile (configPath fs), Call_time_Parse (timestampStr fs)],
             stdout = []\<rparr>)"
  using assms
  by (auto simp: RestoreCommand_Run_def return_def after_def split: sum.splits)

theorem restore_malformed_timestamp_no_db_lookup_witness:
  "ParseRestore demo_env
       [''-config'', ''/etc/litestream.yml'', ''-timestamp'', ''yesterday'', ''/var/lib/app.db'']
     = Inr (demo_restore_flags\<lparr>timestampStr := ''yesterday''\<rparr>)
   \<and> time_Parse_RFC3339 demo_env ''yesterday'' = Inl (Error ''cannot parse'')
   \<and> ReadConfigFile demo_env ''/etc/litestream.yml'' = Inr demo_config
   \<and> RestoreCommand_Run demo_env
       [''-config'', ''/etc/litestream.yml'', ''-timestamp'', ''yesterday'', ''/var/lib/app.db'']
     = \<lparr>err = Some (Error
          (''invalid -timestamp, must specify in ISO 8601'' @ [CHR 0xC2, CHR 0xA0]
                 @ ''format (e.g. 2000-01-01T00:00:00Z)'')),
        calls = [Call_ReadConfigFile ''/etc/litestream.yml'', Call_time_Parse ''yesterday''],
        stdout = []\<rparr>"
proof -
  let ?args = "[''-config'', ''/etc/litestream.yml'', ''-timestamp'', ''yesterday'', ''/var/lib/app.db'']"
  let ?fs = "demo_restore_flags\<lparr>timestampStr := ''yesterday''\<rparr>"
  have p: "ParseRestore demo_env ?args = Inr ?fs"
    by (simp add: demo_env_def demo_ParseRestore_def)
  have t: "timestampStr ?fs \<noteq> []"
    by simp
  have m: "time_Parse_RFC3339 demo_env (timestampStr ?fs) = Inl (Error ''cannot parse'')"
    by (simp add: demo_env_def)
  have c: "NArg ?fs = 1 \<and> Arg ?fs 0 \<noteq> [] \<and> configPath ?fs \<noteq> []
      \<and> ReadConfigFile demo_env (configPath ?fs) = Inr demo_config"
    by (simp add: demo_env_def demo_restore_flags_def NArg_def Arg_def)
  from restore_malformed_timestamp_no_db_lookup [OF p t m, of demo_config] c
  have "RestoreCommand_Run demo_env ?args =
     \<lparr>err = Some (Error
          (''invalid -timestamp, must specify in ISO 8601'' @ [CHR 0xC2, CHR 0xA0]
                 @ ''format (e.g. 2000-01-01T00:00:00Z)'')),
      calls = [Call_ReadConfigFile (configPath ?fs), Call_time_Parse (timestampStr ?fs)],
      stdout = []\<rparr>"
    by blast
  with p m c show ?thesis
    by (simp add: demo_restore_flags_def)
qed

text \<open>
  Claim C1 as it is written fails: the configuration provider is called although the
  timestamp is malformed.
\<close>

theorem restore_malformed_timestamp_reads_config:
  "time_Parse_RFC3339 demo_env ''yesterday'' = Inl (Error ''cannot parse'')
   \<and> calls (RestoreCommand_Run demo_env
       [''-config'', ''/etc/litestream.yml'', ''-timestamp'', ''yesterday'', ''/var/lib/app.db''])
     = [Call_ReadConfigFile ''/etc/litestream.yml'', Call_time_Parse ''yesterday'']"
  by (simp add: RestoreCommand_Run_def demo_env_def demo_ParseRestore_def demo_restore_flags_def
      NArg_def Arg_def)

subsection \<open>Restore: the output path\<close>

text \<open>
  Claim C2, as the code has it. The \<^verbatim>\<open>OutputPath\<close> of the options handed to
  \<^verbatim>\<open>Restore\<close> is the value the flag parser stored for \<^verbatim>\<open>-o\<close>, unchanged. What
  the command makes absolute is its positional argument: the path looked up in the
  configuration is the result of \<^verbatim>\<open>filepath.Abs\<close> on it.
\<close>

theorem restore_output_path_is_flag_value:
  assumes "ParseRestore env args = Inr fs"
  shows "(Call_DB_Restore db ro \<in> set (calls (RestoreCommand_Run env args)) \<longrightarrow>
            OutputPath ro = OutputPath (opt fs))
    \<and> (Call_DBConfig p \<in> set (calls (RestoreCommand_Run env args)) \<longrightarrow>
            filepath_Abs env (Arg fs 0) = Inr p)"
  using assms
  by (auto simp: RestoreCommand_Run_def split: sum.splits if_splits
      dest!: restore_db_options restore_db_lookup)

theorem restore_output_path_is_flag_value_witness:
  "ParseRestore demo_env [''-config'', ''/etc/litestream.yml'', ''-o'', ''out.db'', ''/var/lib/app.db'']
     = Inr (demo_restore_flags\<lparr>opt := demo_options\<lparr>OutputPath := ''out.db''\<rparr>\<rparr>)
   \<and> Call_DB_Restore (''/var/lib/app.db'', [''s3'']) (demo_options\<lparr>OutputPath := ''out.db''\<rparr>)
       \<in> set (calls (RestoreCommand_Run demo_env
            [''-config'', ''/etc/litestream.yml'', ''-o'', ''out.db'', ''/var/lib/app.db'']))
   \<and> Call_DBConfig ''/var/lib/app.db''
       \<in> set (calls (RestoreCommand_Run demo_env
            [''-config'', ''/etc/litestream.yml'', ''-o'', ''out.db'', ''/var/lib/app.db'']))
   \<and> OutputPath (demo_options\<lparr>OutputPath := ''out.db''\<rparr>) = ''out.db''
   \<and> filepath_Abs demo_env ''/var/lib/app.db'' = Inr ''/var/lib/app.db''"
proof -
  let ?args = "[''-config'', ''/etc/litestream.yml'', ''-o'', ''out.db'', ''/var/lib/app.db'']"
  let ?fs = "demo_restore_flags\<lparr>opt := demo_options\<lparr>OutputPath := ''out.db''\<rparr>\<rparr>"
  have p: "ParseRestore demo_env ?args = Inr ?fs"
    by (simp add: demo_env_def demo_ParseRestore_def)
  have r: "Call_DB_Restore (''/var/lib/app.db'', [''s3'']) (demo_options\<lparr>OutputPath := ''out.db''\<rparr>)
      \<in> set (calls (RestoreCommand_Run demo_env ?args))"
    by (simp add: RestoreCommand_Run_def restore_db_def enable_logger_def demo_env_def
        demo_ParseRestore_def demo_restore_flags_def demo_options_def demo_config_def
        NArg_def Arg_def IsAbs_def)
  have l: "Call_DBConfig ''/var/lib/app.db'' \<in> set (calls (RestoreCommand_Run demo_env ?args))"
    by (simp add: RestoreCommand_Run_def restore_db_def enable_logger_def demo_env_def
        demo_ParseRestore_def demo_restore_flags_def demo_options_def demo_config_def
        NArg_def Arg_def IsAbs_def)
  from restore_output_path_is_flag_value [OF p] r l
  have "OutputPath (demo_options\<lparr>OutputPath := ''out.db''\<rparr>) = OutputPath (opt ?fs)
      \<and> filepath_Abs demo_env (Arg ?fs 0) = Inr ''/var/lib/app.db''"
    by blast
  with p r l show ?thesis
    by (simp add: demo_restore_flags_def Arg_def)
qed

text \<open>
  Claim C2 as it is written fails: with \<^verbatim>\<open>-o out.db\<close> the command reaches
  \<^verbatim>\<open>Restore\<close> and hands it the relative path.
\<close>

theorem restore_output_path_relative:
  "calls (RestoreCommand_Run demo_env
       [''-config'', ''/etc/litestream.yml'', ''-o'', ''out.db'', ''/var/lib/app.db''])
     = [Call_ReadConfigFile ''/etc/litestream.yml'', Call_filepath_Abs ''/var/lib/app.db'',
        Call_DBConfig ''/var/lib/app.db'', Call_newDBFromConfig (''/var/lib/app.db'', [''s3'']),
        Call_DB_Restore (''/var/lib/app.db'', [''s3'']) (demo_options\<lparr>OutputPath := ''out.db''\<rparr>)]
   \<and> OutputPath (demo_options\<lparr>OutputPath := ''out.db''\<rparr>) = ''out.db''
   \<and> \<not> IsAbs ''out.db''"
  by (simp add: RestoreCommand_Run_def restore_db_def enable_logger_def demo_env_def
      demo_ParseRestore_def demo_restore_flags_def demo_options_def demo_config_def
      NArg_def Arg_def IsAbs_def)

subsection \<open>Restore: a dry run is verbose\<close>

text \<open>
  Claim C4. The block that finishes the options attaches a logger whenever \<^verbatim>\<open>DryRun\<close>
  is set, whatever the value of \<^verbatim>\<open>-v\<close>; so the options of every \<^verbatim>\<open>Restore\<close> call
  of a run with \<^verbatim>\<open>-dry-run\<close> have \<^verbatim>\<open>DryRun\<close> set and a logger, the one that writes
  to standard error.
\<close>

theorem restore_dry_run_attaches_logger:
  "(DryRun ropt \<longrightarrow> Logger (enable_logger vb ropt) = Some (log_New Stderr [] LstdFlags))
   \<and> (ParseRestore env args = Inr fs \<and> DryRun (opt fs)
        \<and> Call_DB_Restore db ro \<in> set (calls (RestoreCommand_Run env args)) \<longrightarrow>
      DryRun ro \<and> Logger ro = Some (log_New Stderr [] LstdFlags))"
  by (auto simp: RestoreCommand_Run_def enable_logger_dry_run split: sum.splits if_splits
      dest!: restore_db_options)

theorem restore_dry_run_attaches_logger_witness:
  "DryRun (demo_options\<lparr>DryRun := True\<rparr>)
   \<and> Logger (enable_logger False (demo_options\<lparr>DryRun := True\<rparr>))
       = Some \<lparr>out = Stderr, prefix = [], flag = 3\<rparr>
   \<and> ParseRestore demo_env
       [''-config'', ''/etc/litestream.yml'', ''-dry-run'', ''-v=false'', ''/var/lib/app.db'']
     = Inr (demo_restore_flags\<lparr>opt := demo_options\<lparr>DryRun := True\<rparr>\<rparr>)
   \<and> Call_DB_Restore (''/var/lib/app.db'', [''s3''])
        (demo_options\<lparr>DryRun := True, Logger := Some \<lparr>out = Stderr, prefix = [], flag = 3\<rparr>\<rparr>)
       \<in> set (calls (RestoreCommand_Run demo_env
            [''-config'', ''/etc/litestream.yml'', ''-dry-run'', ''-v=false'', ''/var/lib/app.db'']))"
proof -
  let ?args = "[''-config'', ''/etc/litestream.yml'', ''-dry-run'', ''-v=false'', ''/var/lib/app.db'']"
  let ?fs = "demo_restore_flags\<lparr>opt := demo_options\<lparr>DryRun := True\<rparr>\<rparr>"
  let ?ro = "demo_options\<lparr>DryRun := True, Logger := Some \<lparr>out = Stderr, prefix = [], flag = 3\<rparr>\<rparr>"
  have d: "DryRun (demo_options\<lparr>DryRun := True\<rparr>)"
    by simp
  have p: "ParseRestore demo_env ?args = Inr ?fs"
    by (simp add: demo_env_def demo_ParseRestore_def)
  have f: "DryRun (opt ?fs)"
    by simp
  have r: "Call_DB_Restore (''/var/lib/app.db'', [''s3'']) ?ro
      \<in> set (calls (RestoreCommand_Run demo_env ?args))"
    by (simp add: RestoreCommand_Run_def restore_db_def enable_logger_def demo_env_def
        demo_ParseRestore_def demo_restore_flags_def demo_options_def demo_config_def
        NArg_def Arg_def IsAbs_def log_New_def LstdFlags_def)
  from restore_dry_run_attaches_logger
    [of "demo_options\<lparr>DryRun := True\<rparr>" False demo_env ?args ?fs "(''/var/lib/app.db'', [''s3''])" ?ro]
    d p f r
  have "Logger (enable_logger False (demo_options\<lparr>DryRun := True\<rparr>))
      = Some (log_New Stderr [] LstdFlags) \<and> DryRun ?ro"
    by blast
  with d p r show ?thesis
    by (simp add: log_New_def LstdFlags_def)
qed

subsection \<open>Restore: the configuration path is required\<close>

text \<open>
  Claim C9, as the code has it. What the restore command tests is the value of the
  \<^verbatim>\<open>-config\<close> variable after flag parsing. With one positional argument that is not
  empty: when that value is empty, the command returns the error \<^verbatim>\<open>-config required\<close>
  and has made no call at all (no configuration load, no timestamp parse, no path
  resolution, no engine call); when it is not empty, which is also the case of a flag left
  out whose variable holds a default, the command goes on and its first call loads the
  configuration at that path.
\<close>

theorem restore_config_required:
  assumes "ParseRestore env args = Inr fs"
    and "NArg fs = 1" and "Arg fs 0 \<noteq> []"
  shows "(configPath fs = [] \<longrightarrow>
            RestoreCommand_Run env args =
              \<lparr>err = Some (Error ''-config required''), calls = [], stdout = []\<rparr>)
    \<and> (configPath fs \<noteq> [] \<longrightarrow>
            take 1 (calls (RestoreCommand_Run env args)) = [Call_ReadConfigFile (configPath fs)])"
  using assms by (simp add: RestoreCommand_Run_def return_def)

theorem restore_config_required_witness:
  "ParseRestore demo_env [''-config'', [], ''/var/lib/app.db''] = Inr (demo_restore_flags\<lparr>configPath := []\<rparr>)
   \<and> NArg (demo_restore_flags\<lparr>configPath := []\<rparr>) = 1
   \<and> Arg (demo_restore_flags\<lparr>configPath := []\<rparr>) 0 \<noteq> []
   \<and> configPath (demo_restore_flags\<lparr>configPath := []\<rparr>) = []
   \<and> RestoreCommand_Run demo_env [''-config'', [], ''/var/lib/app.db'']
     = \<lparr>err = Some (Error ''-config required''), calls = [], stdout = []\<rparr>
   \<and> ParseRestore demo_env [''-config'', ''/etc/litestream.yml'', ''/var/lib/app.db'']
     = Inr demo_restore_flags
   \<and> NArg demo_restore_flags = 1
   \<and> Arg demo_restore_flags 0 \<noteq> []
   \<and> configPath demo_restore_flags = ''/etc/litestream.yml''
   \<and> take 1 (calls (RestoreCommand_Run demo_env
         [''-config'', ''/etc/litestream.yml'', ''/var/lib/app.db'']))
     = [Call_ReadConfigFile ''/etc/litestream.yml'']"
proof -
  let ?fs = "demo_restore_flags\<lparr>configPath := []\<rparr>"
  let ?args = "[''-config'', ''/etc/litestream.yml'', ''/var/lib/app.db'']"
  have p: "ParseRestore demo_env [''-config'', [], ''/var/lib/app.db''] = Inr ?fs"
    and p': "ParseRestore demo_env ?args = Inr demo_restore_flags"
    by (simp_all add: demo_env_def demo_ParseRestore_def)
  have n: "NArg ?fs = 1" and a: "Arg ?fs 0 \<noteq> []" and c: "configPath ?fs = []"
    and n': "NArg demo_restore_flags = 1" and a': "Arg demo_restore_flags 0 \<noteq> []"
    and c': "configPath demo_restore_flags = ''/etc/litestream.yml''"
    by (simp_all add: demo_restore_flags_def NArg_def Arg_def)
  from restore_config_required [OF p n a] c
  have 1: "RestoreCommand_Run demo_env [''-config'', [], ''/var/lib/app.db'']
      = \<lparr>err = Some (Error ''-config required''), calls = [], stdout = []\<rparr>"
    by blast
  from restore_config_required [OF p' n' a'] c'
  have 2: "take 1 (calls (RestoreCommand_Run demo_env ?args))
      = [Call_ReadConfigFile ''/etc/litestream.yml'']"
    by simp
  from p n a c 1 p' n' a' c' 2 show ?thesis
    by blast
qed

text \<open>
  Claim C9 as it is written fails: with no \<^verbatim>\<open>-config\<close> on the command line the
  variable holds the default path, and the command loads that configuration and restores.
\<close>

theorem restore_config_omitted_uses_default:
  "ParseRestore demo_env [''/var/lib/app.db'']
     = Inr (demo_restore_flags\<lparr>configPath := ''/etc/litestream.yml''\<rparr>)
   \<and> RestoreCommand_Run demo_env [''/var/lib/app.db'']
     = \<lparr>err = None,
        calls = [Call_ReadConfigFile ''/etc/litestream.yml'', Call_filepath_Abs ''/var/lib/app.db'',
                 Call_DBConfig ''/var/lib/app.db'', Call_newDBFromConfig (''/var/lib/app.db'', [''s3'']),
                 Call_DB_Restore (''/var/lib/app.db'', [''s3'']) demo_options],
        stdout = []\<rparr>"
  by (simp add: RestoreCommand_Run_def restore_db_def enable_logger_def return_def after_def
      demo_env_def demo_ParseRestore_def demo_restore_flags_def demo_DefaultConfigPath_def
      demo_options_def demo_config_def NArg_def Arg_def IsAbs_def)

subsection \<open>The query of the snapshots command\<close>

lemma find_snapshots_replica:
  "find_snapshots env db (Some r) =
     after (Call_Replica_Snapshots r)
      (case Replica_Snapshots env r of
         Inl e \<Rightarrow> return (Some e)
       | Inr infos \<Rightarrow> list_snapshots env infos)"
  by (simp add: find_snapshots_def)

lemma find_snapshots_db:
  "find_snapshots env (Some db) None =
     after (Call_DB_Snapshots db)
      (case DB_Snapshots env db of
         Inl e \<Rightarrow> return (Some e)
       | Inr infos \<Rightarrow> list_snapshots env infos)"
  by (simp add: find_snapshots_def)

text \<open>A run that has queried a replica, or a database, ends as that query ends.\<close>

lemma snapshots_replica_query:
  "Call_Replica_Snapshots r \<in> set (calls (SnapshotsCommand_Run env args)) \<longrightarrow>
     err (SnapshotsCommand_Run env args)
       = (case Replica_Snapshots env r of Inl e \<Rightarrow> Some e | Inr infos \<Rightarrow> None)
     \<and> stdout (SnapshotsCommand_Run env args)
       = (case Replica_Snapshots env r of
            Inl e \<Rightarrow> []
          | Inr infos \<Rightarrow> tabwriter env (header @ concat (map (row env) infos)))"
  by (auto simp: SnapshotsCommand_Run_def find_snapshots_replica find_snapshots_db
      split: sum.split option.split)

lemma snapshots_db_query:
  "Call_DB_Snapshots d \<in> set (calls (SnapshotsCommand_Run env args)) \<longrightarrow>
     err (SnapshotsCommand_Run env args)
       = (case DB_Snapshots env d of Inl e \<Rightarrow> Some e | Inr infos \<Rightarrow> None)
     \<and> stdout (SnapshotsCommand_Run env args)
       = (case DB_Snapshots env d of
            Inl e \<Rightarrow> []
          | Inr infos \<Rightarrow> tabwriter env (header @ concat (map (row env) infos)))"
  by (auto simp: SnapshotsCommand_Run_def find_snapshots_replica find_snapshots_db
      split: sum.split option.split)

text \<open>The whole run when the positional argument is a URL.\<close>

lemma snapshots_url:
  assumes "ParseSnapshots env args = Inr fs"
    and "NArg fs = 1" and "Arg fs 0 \<noteq> []"
    and "isURL env (Arg fs 0)"
  shows "SnapshotsCommand_Run env args =
     after (Call_isURL (Arg fs 0))
      (after (Call_NewReplicaFromURL (Arg fs 0))
        (case NewReplicaFromURL env (Arg fs 0) of
           Inl e \<Rightarrow> return (Some e)
         | Inr r \<Rightarrow>
             after (Call_Replica_Snapshots r)
              (case Replica_Snapshots env r of
                 Inl e \<Rightarrow> return (Some e)
               | Inr infos \<Rightarrow> list_snapshots env infos)))"
  using assms
  by (simp add: SnapshotsCommand_Run_def find_snapshots_replica split: sum.splits)

text \<open>Evaluating the two commands in the concrete environment.\<close>

lemmas demo_defs =
  demo_env_def demo_ParseRestore_def demo_ParseSnapshots_def demo_restore_flags_def
  demo_snapshots_flags_def demo_options_def demo_config_def demo_DefaultConfigPath_def
  NArg_def Arg_def IsAbs_def

lemmas run_defs =
  RestoreCommand_Run_def restore_db_def enable_logger_def SnapshotsCommand_Run_def
  find_snapshots_def

subsection \<open>Snapshots: a replica URL goes past the configuration\<close>

text \<open>
  Claim C3. When the single positional argument of the snapshots command is a URL, the
  run never loads a configuration file, whatever \<^verbatim>\<open>-config\<close> holds. Its first two calls
  are the URL test and \<^verbatim>\<open>NewReplicaFromURL\<close> on the argument, and any later call is
  the snapshot query on the replica that this constructor returned.
\<close>

theorem snapshots_url_skips_config:
  assumes "ParseSnapshots env args = Inr fs"
    and "NArg fs = 1"
    and "isURL env (Arg fs 0)"
  shows "Call_ReadConfigFile p \<notin> set (calls (SnapshotsCommand_Run env args))
    \<and> (Arg fs 0 \<noteq> [] \<longrightarrow>
         take 2 (calls (SnapshotsCommand_Run env args))
           = [Call_isURL (Arg fs 0), Call_NewReplicaFromURL (Arg fs 0)]
         \<and> (\<forall>c \<in> set (drop 2 (calls (SnapshotsCommand_Run env args))).
              \<exists>r. NewReplicaFromURL env (Arg fs 0) = Inr r \<and> c = Call_Replica_Snapshots r))"
proof (cases "Arg fs 0 = []")
  case True
  with assms show ?thesis
    by (simp add: SnapshotsCommand_Run_def)
next
  case False
  with assms show ?thesis
    by (simp add: snapshots_url split: sum.splits)
qed

theorem snapshots_url_skips_config_witness:
  "ParseSnapshots demo_env [''-config'', ''/etc/litestream.yml'', ''s3://bkt/app.db'']
     = Inr (demo_snapshots_flags\<lparr>posargs := [''s3://bkt/app.db'']\<rparr>)
   \<and> configPath (demo_snapshots_flags\<lparr>posargs := [''s3://bkt/app.db'']\<rparr>) = ''/etc/litestream.yml''
   \<and> NArg (demo_snapshots_flags\<lparr>posargs := [''s3://bkt/app.db'']\<rparr>) = 1
   \<and> Arg (demo_snapshots_flags\<lparr>posargs := [''s3://bkt/app.db'']\<rparr>) 0 = ''s3://bkt/app.db''
   \<and> isURL demo_env ''s3://bkt/app.db''
   \<and> Call_ReadConfigFile ''/etc/litestream.yml''
       \<notin> set (calls (SnapshotsCommand_Run demo_env
            [''-config'', ''/etc/litestream.yml'', ''s3://bkt/app.db'']))
   \<and> calls (SnapshotsCommand_Run demo_env [''-config'', ''/etc/litestream.yml'', ''s3://bkt/app.db''])
     = [Call_isURL ''s3://bkt/app.db'', Call_NewReplicaFromURL ''s3://bkt/app.db'',
        Call_Replica_Snapshots ''s3://bkt/app.db'']"
proof -
  let ?args = "[''-config'', ''/etc/litestream.yml'', ''s3://bkt/app.db'']"
  let ?fs = "demo_snapshots_flags\<lparr>posargs := [''s3://bkt/app.db'']\<rparr>"
  have p: "ParseSnapshots demo_env ?args = Inr ?fs"
    by (simp add: demo_env_def demo_ParseSnapshots_def)
  have n: "NArg ?fs = 1" and a: "Arg ?fs 0 = ''s3://bkt/app.db''"
    and c: "configPath ?fs = ''/etc/litestream.yml''"
    by (simp_all add: demo_snapshots_flags_def NArg_def Arg_def)
  have u: "isURL demo_env (Arg ?fs 0)"
    by (simp add: a) (simp add: demo_env_def)
  have r: "calls (SnapshotsCommand_Run demo_env ?args)
      = [Call_isURL ''s3://bkt/app.db'', Call_NewReplicaFromURL ''s3://bkt/app.db'',
         Call_Replica_Snapshots ''s3://bkt/app.db'']"
    by (simp add: run_defs demo_defs)
  from snapshots_url_skips_config [OF p n u, of "''/etc/litestream.yml''"]
  have "Call_ReadConfigFile ''/etc/litestream.yml''
      \<notin> set (calls (SnapshotsCommand_Run demo_env ?args))"
    by blast
  with p n a c u r show ?thesis
    by simp
qed

subsection \<open>Snapshots: a replica URL makes the replica flag void\<close>

text \<open>
  Claim C10. When the positional argument is a URL, the value of \<^verbatim>\<open>-replica\<close> does not
  matter: the run is the same for every replica name, it never looks a replica up by name
  on a database and never queries a database, and when \<^verbatim>\<open>NewReplicaFromURL\<close> returns a
  replica its calls are the URL test, that constructor and the snapshot query on that
  replica.
\<close>

theorem snapshots_url_ignores_replica_flag:
  assumes "ParseSnapshots env args = Inr fs"
    and "NArg fs = 1" and "Arg fs 0 \<noteq> []"
    and "isURL env (Arg fs 0)"
  shows "SnapshotsCommand_Run (env\<lparr>ParseSnapshots := \<lambda>a. Inr (fs\<lparr>replicaName := n\<rparr>)\<rparr>) args
           = SnapshotsCommand_Run env args
    \<and> Call_DB_Replica db m \<notin> set (calls (SnapshotsCommand_Run env args))
    \<and> Call_DB_Path db \<notin> set (calls (SnapshotsCommand_Run env args))
    \<and> Call_DB_Snapshots db \<notin> set (calls (SnapshotsCommand_Run env args))
    \<and> (\<forall>r. NewReplicaFromURL env (Arg fs 0) = Inr r \<longrightarrow>
          calls (SnapshotsCommand_Run env args) =
            [Call_isURL (Arg fs 0), Call_NewReplicaFromURL (Arg fs 0), Call_Replica_Snapshots r])"
proof -
  let ?env' = "env\<lparr>ParseSnapshots := \<lambda>a. Inr (fs\<lparr>replicaName := n\<rparr>)\<rparr>"
  let ?fs' = "fs\<lparr>replicaName := n\<rparr>"
  have fs': "ParseSnapshots ?env' args = Inr ?fs'" "NArg ?fs' = 1" "Arg ?fs' 0 \<noteq> []"
    "isURL ?env' (Arg ?fs' 0)"
    using assms by (simp_all add: NArg_def Arg_def)
  have same: "Arg ?fs' 0 = Arg fs 0"
    "\<And>infos. list_snapshots ?env' infos = list_snapshots env infos"
    by (simp_all add: Arg_def list_snapshots_def row_def [abs_def])
  have "SnapshotsCommand_Run ?env' args = SnapshotsCommand_Run env args"
    unfolding snapshots_url [OF fs'] snapshots_url [OF assms] same
    by (simp cong: sum.case_cong)
  moreover have "Call_DB_Replica db m \<notin> set (calls (SnapshotsCommand_Run env args))"
    "Call_DB_Path db \<notin> set (calls (SnapshotsCommand_Run env args))"
    "Call_DB_Snapshots db \<notin> set (calls (SnapshotsCommand_Run env args))"
    by (simp_all add: snapshots_url [OF assms] split: sum.splits)
  moreover have "\<forall>r. NewReplicaFromURL env (Arg fs 0) = Inr r \<longrightarrow>
      calls (SnapshotsCommand_Run env args) =
        [Call_isURL (Arg fs 0), Call_NewReplicaFromURL (Arg fs 0), Call_Replica_Snapshots r]"
    by (simp add: snapshots_url [OF assms] split: sum.splits)
  ultimately show ?thesis
    by simp
qed

theorem snapshots_url_ignores_replica_flag_witness:
  "ParseSnapshots demo_env [''-config'', ''/etc/litestream.yml'', ''-replica'', ''gcs'', ''s3://bkt/app.db'']
     = Inr (demo_snapshots_flags\<lparr>posargs := [''s3://bkt/app.db''], replicaName := ''gcs''\<rparr>)
   \<and> NArg (demo_snapshots_flags\<lparr>posargs := [''s3://bkt/app.db''], replicaName := ''gcs''\<rparr>) = 1
   \<and> Arg (demo_snapshots_flags\<lparr>posargs := [''s3://bkt/app.db''], replicaName := ''gcs''\<rparr>) 0
       = ''s3://bkt/app.db''
   \<and> isURL demo_env ''s3://bkt/app.db''
   \<and> NewReplicaFromURL demo_env ''s3://bkt/app.db'' = Inr ''s3://bkt/app.db''
   \<and> SnapshotsCommand_Run
        (demo_env\<lparr>ParseSnapshots := \<lambda>a. Inr (demo_snapshots_flags
           \<lparr>posargs := [''s3://bkt/app.db''], replicaName := ''gcs''\<rparr>\<lparr>replicaName := []\<rparr>)\<rparr>)
        [''-config'', ''/etc/litestream.yml'', ''-replica'', ''gcs'', ''s3://bkt/app.db'']
     = SnapshotsCommand_Run demo_env
        [''-config'', ''/etc/litestream.yml'', ''-replica'', ''gcs'', ''s3://bkt/app.db'']
   \<and> calls (SnapshotsCommand_Run demo_env
        [''-config'', ''/etc/litestream.yml'', ''-replica'', ''gcs'', ''s3://bkt/app.db''])
     = [Call_isURL ''s3://bkt/app.db'', Call_NewReplicaFromURL ''s3://bkt/app.db'',
        Call_Replica_Snapshots ''s3://bkt/app.db'']"
proof -
  let ?args = "[''-config'', ''/etc/litestream.yml'', ''-replica'', ''gcs'', ''s3://bkt/app.db'']"
  let ?fs = "demo_snapshots_flags\<lparr>posargs := [''s3://bkt/app.db''], replicaName := ''gcs''\<rparr>"
  have p: "ParseSnapshots demo_env ?args = Inr ?fs"
    by (simp add: demo_env_def demo_ParseSnapshots_def)
  have n: "NArg ?fs = 1" and a: "Arg ?fs 0 = ''s3://bkt/app.db''"
    by (simp_all add: NArg_def Arg_def)
  have a': "Arg ?fs 0 \<noteq> []"
    by (simp add: a)
  have u: "isURL demo_env ''s3://bkt/app.db''"
    and c: "NewReplicaFromURL demo_env ''s3://bkt/app.db'' = Inr ''s3://bkt/app.db''"
    by (simp_all add: demo_env_def)
  have u': "isURL demo_env (Arg ?fs 0)"
    by (simp add: a u)
  from snapshots_url_ignores_replica_flag [OF p n a' u', of "[]"] c
  have "SnapshotsCommand_Run (demo_env\<lparr>ParseSnapshots := \<lambda>a. Inr (?fs\<lparr>replicaName := []\<rparr>)\<rparr>) ?args
      = SnapshotsCommand_Run demo_env ?args
    \<and> calls (SnapshotsCommand_Run demo_env ?args)
      = [Call_isURL (Arg ?fs 0), Call_NewReplicaFromURL (Arg ?fs 0),
         Call_Replica_Snapshots ''s3://bkt/app.db'']"
    unfolding a by blast
  with p n a u c show ?thesis
    by simp
qed


subsection \<open>Snapshots: a failed query prints nothing\<close>

text \<open>
  Claim C5. When the snapshot query of a run of the snapshots command, on the replica or
  on the database, returns an error, the command returns that error and has written
  nothing to standard output: no header and no row.
\<close>

theorem snapshots_query_error_no_output:
  "(Call_Replica_Snapshots r \<in> set (calls (SnapshotsCommand_Run env args))
      \<and> Replica_Snapshots env r = Inl e \<longrightarrow>
        err (SnapshotsCommand_Run env args) = Some e \<and> stdout (SnapshotsCommand_Run env args) = [])
   \<and> (Call_DB_Snapshots db \<in> set (calls (SnapshotsCommand_Run env args))
      \<and> DB_Snapshots env db = Inl e \<longrightarrow>
        err (SnapshotsCommand_Run env args) = Some e \<and> stdout (SnapshotsCommand_Run env args) = [])"
  using snapshots_replica_query [of r env args] snapshots_db_query [of db env args]
  by simp

theorem snapshots_query_error_no_output_witness:
  "Call_Replica_Snapshots ''s3://down/app.db''
       \<in> set (calls (SnapshotsCommand_Run demo_env
            [''-config'', ''/etc/litestream.yml'', ''s3://down/app.db'']))
   \<and> Replica_Snapshots demo_env ''s3://down/app.db'' = Inl (Error ''connection refused'')
   \<and> err (SnapshotsCommand_Run demo_env [''-config'', ''/etc/litestream.yml'', ''s3://down/app.db''])
       = Some (Error ''connection refused'')
   \<and> stdout (SnapshotsCommand_Run demo_env [''-config'', ''/etc/litestream.yml'', ''s3://down/app.db''])
       = []
   \<and> Call_DB_Snapshots (''/var/lib/old.db'', [])
       \<in> set (calls (SnapshotsCommand_Run demo_env
            [''-config'', ''/etc/litestream.yml'', ''/var/lib/old.db'']))
   \<and> DB_Snapshots demo_env (''/var/lib/old.db'', []) = Inl (Error ''permission denied'')
   \<and> err (SnapshotsCommand_Run demo_env [''-config'', ''/etc/litestream.yml'', ''/var/lib/old.db''])
       = Some (Error ''permission denied'')
   \<and> stdout (SnapshotsCommand_Run demo_env [''-config'', ''/etc/litestream.yml'', ''/var/lib/old.db''])
       = []"
proof -
  let ?url = "[''-config'', ''/etc/litestream.yml'', ''s3://down/app.db'']"
  let ?old = "[''-config'', ''/etc/litestream.yml'', ''/var/lib/old.db'']"
  have r: "Call_Replica_Snapshots ''s3://down/app.db''
      \<in> set (calls (SnapshotsCommand_Run demo_env ?url))"
    by (simp add: run_defs demo_defs)
  have re: "Replica_Snapshots demo_env ''s3://down/app.db'' = Inl (Error ''connection refused'')"
    by (simp add: demo_env_def)
  have d: "Call_DB_Snapshots (''/var/lib/old.db'', [])
      \<in> set (calls (SnapshotsCommand_Run demo_env ?old))"
    by (simp add: run_defs demo_defs)
  have de: "DB_Snapshots demo_env (''/var/lib/old.db'', []) = Inl (Error ''permission denied'')"
    by (simp add: demo_env_def)
  from snapshots_query_error_no_output
    [of "''s3://down/app.db''" demo_env ?url "Error ''connection refused''"] r re
  have 1: "err (SnapshotsCommand_Run demo_env ?url) = Some (Error ''connection refused'')
      \<and> stdout (SnapshotsCommand_Run demo_env ?url) = []"
    by blast
  from snapshots_query_error_no_output
    [of _ demo_env ?old "Error ''permission denied''" "(''/var/lib/old.db'', [])"] d de
  have 2: "err (SnapshotsCommand_Run demo_env ?old) = Some (Error ''permission denied'')
      \<and> stdout (SnapshotsCommand_Run demo_env ?old) = []"
    by blast
  from r re d de 1 2 show ?thesis
    by blast
qed

subsection \<open>Snapshots: an unknown replica name\<close>

text \<open>
  Claim C6. With a configuration file that loads, a positional argument that is not a URL
  and whose expanded path has an entry in the configuration from which the database
  handle is built, and a \<^verbatim>\<open>-replica\<close> name for which the database has no replica, the
  snapshots command returns the error whose message is made of the replica name and of
  the path of the database, each as \<^verbatim>\<open>%q\<close> prints it. It writes nothing to standard
  output and queries no snapshots.
\<close>

theorem snapshots_replica_not_found:
  assumes "ParseSnapshots env args = Inr fs"
    and "NArg fs = 1" and "Arg fs 0 \<noteq> []"
    and "\<not> isURL env (Arg fs 0)"
    and "configPath fs \<noteq> []"
    and "ReadConfigFile env (configPath fs) = Inr config"
    and "expand env (Arg fs 0) = Inr path"
    and "DBConfig env config path = Some dbc"
    and "newDBFromConfig env config dbc = Inr db"
    and "replicaName fs \<noteq> []"
    and "DB_Replica env db (replicaName fs) = None"
  shows "err (SnapshotsCommand_Run env args) =
           Some (Error (''replica '' @ quote env (replicaName fs) @ '' not found for database ''
                        @ quote env (DB_Path env db)))
    \<and> stdout (SnapshotsCommand_Run env args) = []
    \<and> calls (SnapshotsCommand_Run env args) =
        [Call_isURL (Arg fs 0), Call_ReadConfigFile (configPath fs), Call_expand (Arg fs 0),
         Call_DBConfig path, Call_newDBFromConfig dbc, Call_DB_Replica db (replicaName fs),
         Call_DB_Path db]"
  using assms by (simp add: SnapshotsCommand_Run_def)

theorem snapshots_replica_not_found_witness:
  "ParseSnapshots demo_env [''-config'', ''/etc/litestream.yml'', ''-replica'', ''gcs'', ''/var/lib/app.db'']
     = Inr (demo_snapshots_flags\<lparr>replicaName := ''gcs''\<rparr>)
   \<and> NArg (demo_snapshots_flags\<lparr>replicaName := ''gcs''\<rparr>) = 1
   \<and> Arg (demo_snapshots_flags\<lparr>replicaName := ''gcs''\<rparr>) 0 = ''/var/lib/app.db''
   \<and> \<not> isURL demo_env ''/var/lib/app.db''
   \<and> configPath (demo_snapshots_flags\<lparr>replicaName := ''gcs''\<rparr>) = ''/etc/litestream.yml''
   \<and> ReadConfigFile demo_env ''/etc/litestream.yml'' = Inr demo_config
   \<and> expand demo_env ''/var/lib/app.db'' = Inr ''/var/lib/app.db''
   \<and> DBConfig demo_env demo_config ''/var/lib/app.db'' = Some (''/var/lib/app.db'', [''s3''])
   \<and> newDBFromConfig demo_env demo_config (''/var/lib/app.db'', [''s3''])
       = Inr (''/var/lib/app.db'', [''s3''])
   \<and> replicaName (demo_snapshots_flags\<lparr>replicaName := ''gcs''\<rparr>) = ''gcs''
   \<and> DB_Replica demo_env (''/var/lib/app.db'', [''s3'']) ''gcs'' = None
   \<and> err (SnapshotsCommand_Run demo_env
        [''-config'', ''/etc/litestream.yml'', ''-replica'', ''gcs'', ''/var/lib/app.db''])
     = Some (Error (''replica '' @ [CHR 0x22] @ ''gcs'' @ [CHR 0x22] @ '' not found for database ''
                    @ [CHR 0x22] @ ''/var/lib/app.db'' @ [CHR 0x22]))
   \<and> stdout (SnapshotsCommand_Run demo_env
        [''-config'', ''/etc/litestream.yml'', ''-replica'', ''gcs'', ''/var/lib/app.db''])
     = []"
proof -
  let ?args = "[''-config'', ''/etc/litestream.yml'', ''-replica'', ''gcs'', ''/var/lib/app.db'']"
  let ?fs = "demo_snapshots_flags\<lparr>replicaName := ''gcs''\<rparr>"
  let ?db = "(''/var/lib/app.db'', [''s3''])"
  have p: "ParseSnapshots demo_env ?args = Inr ?fs"
    by (simp add: demo_env_def demo_ParseSnapshots_def)
  have n: "NArg ?fs = 1" and a: "Arg ?fs 0 = ''/var/lib/app.db''"
    and c: "configPath ?fs = ''/etc/litestream.yml''" and rn: "replicaName ?fs = ''gcs''"
    by (simp_all add: demo_snapshots_flags_def NArg_def Arg_def)
  have u: "\<not> isURL demo_env ''/var/lib/app.db''"
    and rc: "ReadConfigFile demo_env ''/etc/litestream.yml'' = Inr demo_config"
    and ex: "expand demo_env ''/var/lib/app.db'' = Inr ''/var/lib/app.db''"
    and dc: "DBConfig demo_env demo_config ''/var/lib/app.db'' = Some ?db"
    and nd: "newDBFromConfig demo_env demo_config ?db = Inr ?db"
    and nr: "DB_Replica demo_env ?db ''gcs'' = None"
    by (simp_all add: demo_env_def demo_config_def)
  have "err (SnapshotsCommand_Run demo_env ?args) =
           Some (Error (''replica '' @ quote demo_env (replicaName ?fs) @ '' not found for database ''
                        @ quote demo_env (DB_Path demo_env ?db)))
    \<and> stdout (SnapshotsCommand_Run demo_env ?args) = []"
    using snapshots_replica_not_found [of demo_env ?args ?fs demo_config "''/var/lib/app.db''" ?db ?db]
      p n a c rn u rc ex dc nd nr
    by simp
  then have "err (SnapshotsCommand_Run demo_env ?args)
      = Some (Error (''replica '' @ [CHR 0x22] @ ''gcs'' @ [CHR 0x22] @ '' not found for database ''
                     @ [CHR 0x22] @ ''/var/lib/app.db'' @ [CHR 0x22]))
    \<and> stdout (SnapshotsCommand_Run demo_env ?args) = []"
    by (simp add: rn) (simp add: demo_env_def)
  with p n a c rn u rc ex dc nd nr show ?thesis
    by blast
qed

subsection \<open>Snapshots: an empty inventory prints the header\<close>

text \<open>
  Claim C7. When the snapshot query of a run of the snapshots command, on the replica or
  on the database, returns the empty sequence, the command returns no error and what it
  sends to standard output is what the tab writer makes of the header line alone: the
  five column names \<^verbatim>\<open>replica\<close>, \<^verbatim>\<open>generation\<close>, \<^verbatim>\<open>index\<close>, \<^verbatim>\<open>size\<close> and
  \<^verbatim>\<open>created\<close>, a tab between them and a newline at the end.
\<close>

theorem snapshots_empty_prints_header:
  "(Call_Replica_Snapshots r \<in> set (calls (SnapshotsCommand_Run env args))
      \<and> Replica_Snapshots env r = Inr [] \<longrightarrow>
        err (SnapshotsCommand_Run env args) = None
        \<and> stdout (SnapshotsCommand_Run env args)
            = tabwriter env (''replica'' @ [CHR 0x09] @ ''generation'' @ [CHR 0x09] @ ''index'' @ [CHR 0x09]
               @ ''size'' @ [CHR 0x09] @ ''created'' @ [CHR 0x0A]))
   \<and> (Call_DB_Snapshots db \<in> set (calls (SnapshotsCommand_Run env args))
      \<and> DB_Snapshots env db = Inr [] \<longrightarrow>
        err (SnapshotsCommand_Run env args) = None
        \<and> stdout (SnapshotsCommand_Run env args)
            = tabwriter env (''replica'' @ [CHR 0x09] @ ''generation'' @ [CHR 0x09] @ ''index'' @ [CHR 0x09]
               @ ''size'' @ [CHR 0x09] @ ''created'' @ [CHR 0x0A]))"
  using snapshots_replica_query [of r env args] snapshots_db_query [of db env args]
  by (simp add: header_def tab_def newline_def)

theorem snapshots_empty_prints_header_witness:
  "Call_Replica_Snapshots ''s3://bkt/app.db''
       \<in> set (calls (SnapshotsCommand_Run demo_env
            [''-config'', ''/etc/litestream.yml'', ''s3://bkt/app.db'']))
   \<and> Replica_Snapshots demo_env ''s3://bkt/app.db'' = Inr []
   \<and> err (SnapshotsCommand_Run demo_env [''-config'', ''/etc/litestream.yml'', ''s3://bkt/app.db''])
       = None
   \<and> stdout (SnapshotsCommand_Run demo_env [''-config'', ''/etc/litestream.yml'', ''s3://bkt/app.db''])
       = (''replica'' @ [CHR 0x09] @ ''generation'' @ [CHR 0x09] @ ''index'' @ [CHR 0x09]
               @ ''size'' @ [CHR 0x09] @ ''created'' @ [CHR 0x0A])
   \<and> Call_DB_Snapshots (''/var/lib/app.db'', [''s3''])
       \<in> set (calls (SnapshotsCommand_Run demo_env
            [''-config'', ''/etc/litestream.yml'', ''/var/lib/app.db'']))
   \<and> DB_Snapshots demo_env (''/var/lib/app.db'', [''s3'']) = Inr []
   \<and> err (SnapshotsCommand_Run demo_env [''-config'', ''/etc/litestream.yml'', ''/var/lib/app.db''])
       = None
   \<and> stdout (SnapshotsCommand_Run demo_env [''-config'', ''/etc/litestream.yml'', ''/var/lib/app.db''])
       = (''replica'' @ [CHR 0x09] @ ''generation'' @ [CHR 0x09] @ ''index'' @ [CHR 0x09]
               @ ''size'' @ [CHR 0x09] @ ''created'' @ [CHR 0x0A])"
proof -
  let ?url = "[''-config'', ''/etc/litestream.yml'', ''s3://bkt/app.db'']"
  let ?app = "[''-config'', ''/etc/litestream.yml'', ''/var/lib/app.db'']"
  let ?hdr = "(''replica'' @ [CHR 0x09] @ ''generation'' @ [CHR 0x09] @ ''index'' @ [CHR 0x09]
               @ ''size'' @ [CHR 0x09] @ ''created'' @ [CHR 0x0A])"
  have r: "Call_Replica_Snapshots ''s3://bkt/app.db''
      \<in> set (calls (SnapshotsCommand_Run demo_env ?url))"
    by (simp add: run_defs demo_defs)
  have re: "Replica_Snapshots demo_env ''s3://bkt/app.db'' = Inr []"
    by (simp add: demo_env_def)
  have d: "Call_DB_Snapshots (''/var/lib/app.db'', [''s3''])
      \<in> set (calls (SnapshotsCommand_Run demo_env ?app))"
    by (simp add: run_defs demo_defs)
  have de: "DB_Snapshots demo_env (''/var/lib/app.db'', [''s3'']) = Inr []"
    by (simp add: demo_env_def)
  have t: "tabwriter demo_env ?hdr = ?hdr"
    by (simp add: demo_env_def)
  from snapshots_empty_prints_header [of "''s3://bkt/app.db''" demo_env ?url] r re
  have 1: "err (SnapshotsCommand_Run demo_env ?url) = None
      \<and> stdout (SnapshotsCommand_Run demo_env ?url) = tabwriter demo_env ?hdr"
    by blast
  from snapshots_empty_prints_header [of _ demo_env ?app "(''/var/lib/app.db'', [''s3''])"] d de
  have 2: "err (SnapshotsCommand_Run demo_env ?app) = None
      \<and> stdout (SnapshotsCommand_Run demo_env ?app) = tabwriter demo_env ?hdr"
    by blast
  from r re d de 1 2 show ?thesis
    unfolding t by blast
qed

subsection \<open>Both commands: the number of positional arguments\<close>

text \<open>
  Claim C8. When the flag parser leaves no positional argument, an empty first one, or two
  or more, the restore command and the snapshots command each return a usage error (the
  required-argument message in the first two cases, \<^verbatim>\<open>too many arguments\<close> in the
  last) and have made no call: no configuration load and no call into the engine.
\<close>

theorem usage_error_on_argument_count:
  "(ParseRestore env args = Inr rfs \<and> (NArg rfs = 0 \<or> Arg rfs 0 = [] \<or> 2 \<le> NArg rfs) \<longrightarrow>
      RestoreCommand_Run env args =
        \<lparr>err = Some (Error (if NArg rfs = 0 \<or> Arg rfs 0 = []
                            then ''database path or replica URL required''
                            else ''too many arguments'')),
         calls = [], stdout = []\<rparr>)
   \<and> (ParseSnapshots env args = Inr sfs \<and> (NArg sfs = 0 \<or> Arg sfs 0 = [] \<or> 2 \<le> NArg sfs) \<longrightarrow>
      SnapshotsCommand_Run env args =
        \<lparr>err = Some (Error (if NArg sfs = 0 \<or> Arg sfs 0 = []
                            then ''database path required''
                            else ''too many arguments'')),
         calls = [], stdout = []\<rparr>)"
  by (auto simp: RestoreCommand_Run_def SnapshotsCommand_Run_def return_def)

theorem usage_error_on_argument_count_witness:
  "ParseRestore demo_env [''-config'', ''/etc/litestream.yml'', ''a.db'', ''b.db'']
     = Inr (demo_restore_flags\<lparr>posargs := [''a.db'', ''b.db'']\<rparr>)
   \<and> NArg (demo_restore_flags\<lparr>posargs := [''a.db'', ''b.db'']\<rparr>) = 2
   \<and> RestoreCommand_Run demo_env [''-config'', ''/etc/litestream.yml'', ''a.db'', ''b.db'']
     = \<lparr>err = Some (Error ''too many arguments''), calls = [], stdout = []\<rparr>
   \<and> ParseSnapshots demo_env [''-config'', ''/etc/litestream.yml'', ''a.db'', ''b.db'']
     = Inr (demo_snapshots_flags\<lparr>posargs := [''a.db'', ''b.db'']\<rparr>)
   \<and> NArg (demo_snapshots_flags\<lparr>posargs := [''a.db'', ''b.db'']\<rparr>) = 2
   \<and> SnapshotsCommand_Run demo_env [''-config'', ''/etc/litestream.yml'', ''a.db'', ''b.db'']
     = \<lparr>err = Some (Error ''too many arguments''), calls = [], stdout = []\<rparr>
   \<and> ParseRestore demo_env [''-config'', ''/etc/litestream.yml'']
     = Inr (demo_restore_flags\<lparr>posargs := []\<rparr>)
   \<and> NArg (demo_restore_flags\<lparr>posargs := []\<rparr>) = 0
   \<and> RestoreCommand_Run demo_env [''-config'', ''/etc/litestream.yml'']
     = \<lparr>err = Some (Error ''database path or replica URL required''), calls = [], stdout = []\<rparr>
   \<and> ParseSnapshots demo_env [''-config'', ''/etc/litestream.yml'']
     = Inr (demo_snapshots_flags\<lparr>posargs := []\<rparr>)
   \<and> NArg (demo_snapshots_flags\<lparr>posargs := []\<rparr>) = 0
   \<and> SnapshotsCommand_Run demo_env [''-config'', ''/etc/litestream.yml'']
     = \<lparr>err = Some (Error ''database path required''), calls = [], stdout = []\<rparr>"
proof -
  let ?two = "[''-config'', ''/etc/litestream.yml'', ''a.db'', ''b.db'']"
  let ?none = "[''-config'', ''/etc/litestream.yml'']"
  let ?r2 = "demo_restore_flags\<lparr>posargs := [''a.db'', ''b.db'']\<rparr>"
  let ?s2 = "demo_snapshots_flags\<lparr>posargs := [''a.db'', ''b.db'']\<rparr>"
  let ?r0 = "demo_restore_flags\<lparr>posargs := []\<rparr>"
  let ?s0 = "demo_snapshots_flags\<lparr>posargs := []\<rparr>"
  have p2: "ParseRestore demo_env ?two = Inr ?r2" "ParseSnapshots demo_env ?two = Inr ?s2"
    and p0: "ParseRestore demo_env ?none = Inr ?r0" "ParseSnapshots demo_env ?none = Inr ?s0"
    by (simp_all add: demo_env_def demo_ParseRestore_def demo_ParseSnapshots_def)
  have n2: "NArg ?r2 = 2" "NArg ?s2 = 2" and a2: "Arg ?r2 0 \<noteq> []" "Arg ?s2 0 \<noteq> []"
    and n0: "NArg ?r0 = 0" "NArg ?s0 = 0"
    by (simp_all add: NArg_def Arg_def)
  from usage_error_on_argument_count [of demo_env ?two ?r2 ?s2] p2 n2 a2
  have 2: "RestoreCommand_Run demo_env ?two
        = \<lparr>err = Some (Error ''too many arguments''), calls = [], stdout = []\<rparr>
      \<and> SnapshotsCommand_Run demo_env ?two
        = \<lparr>err = Some (Error ''too many arguments''), calls = [], stdout = []\<rparr>"
    by simp
  from usage_error_on_argument_count [of demo_env ?none ?r0 ?s0] p0 n0
  have 0: "RestoreCommand_Run demo_env ?none
        = \<lparr>err = Some (Error ''database path or replica URL required''), calls = [], stdout = []\<rparr>
      \<and> SnapshotsCommand_Run demo_env ?none
        = \<lparr>err = Some (Error ''database path required''), calls = [], stdout = []\<rparr>"
    by simp
  from p2 p0 n2 n0 2 0 show ?thesis
    by blast
qed


end
